theory Spec2Isabelle
  imports Main
begin

section \<open>Python values and strings\<close>

text \<open>
  The script \<^verbatim>\<open>.github/scripts/project_automation.py\<close> drives the \<^verbatim>\<open>gh\<close> command-line
  client. Its functions are embedded one by one, in the order of the source, with the
  remote side (GitHub, reached through \<^verbatim>\<open>gh api\<close>) as an explicit \<open>world\<close> that every
  function takes and returns.

  A parsed JSON document is a value of \<open>json\<close>; an object is the list of its entries and
  is read with \<open>map_of\<close>. Numbers are integers.
\<close>

datatype json =
    JNull
  | JBool bool
  | JInt int
  | JString string
  | JArray "json list"
  | JObject "(string \<times> json) list"

type_synonym jobj = "(string \<times> json) list"

text \<open>The exceptions the script can meet. \<open>SystemExit n\<close> is \<^verbatim>\<open>sys.exit(n)\<close>.\<close>

datatype exc =
    GitHubAPIError string
  | JSONDecodeError string
  | KeyError json
  | IndexError
  | TypeError
  | AttributeError
  | SystemExit int

text \<open>Truthiness, as \<^verbatim>\<open>if not x\<close> reads a value.\<close>

fun truthy :: "json \<Rightarrow> bool" where
  "truthy JNull = False"
| "truthy (JBool b) = b"
| "truthy (JInt i) = (i \<noteq> 0)"
| "truthy (JString s) = (s \<noteq> [])"
| "truthy (JArray xs) = (xs \<noteq> [])"
| "truthy (JObject kvs) = (kvs \<noteq> [])"

text \<open>\<^verbatim>\<open>v[k]\<close> with a string key: only a dict answers, with KeyError for a missing key.\<close>

fun py_item :: "json \<Rightarrow> string \<Rightarrow> exc + json" where
  "py_item (JObject kvs) k =
     (case map_of kvs k of None \<Rightarrow> Inl (KeyError (JString k)) | Some v \<Rightarrow> Inr v)"
| "py_item v k = Inl TypeError"

text \<open>\<^verbatim>\<open>v[0]\<close>: the first element of a list or string, a key lookup on a dict.\<close>

fun py_first :: "json \<Rightarrow> exc + json" where
  "py_first (JArray []) = Inl IndexError"
| "py_first (JArray (x # xs)) = Inr x"
| "py_first (JString []) = Inl IndexError"
| "py_first (JString (c # cs)) = Inr (JString [c])"
| "py_first (JObject kvs) = Inl (KeyError (JInt 0))"
| "py_first v = Inl TypeError"

text \<open>\<^verbatim>\<open>v.get(k, d)\<close>: only a dict has the method.\<close>

fun py_get :: "json \<Rightarrow> string \<Rightarrow> json \<Rightarrow> exc + json" where
  "py_get (JObject kvs) k d = Inr (case map_of kvs k of None \<Rightarrow> d | Some v \<Rightarrow> v)"
| "py_get v k d = Inl AttributeError"

text \<open>
  \<^verbatim>\<open>json.loads\<close> on the output of a jq filter that selects objects: the output is one
  document per selected node, and \<^verbatim>\<open>json.loads\<close> accepts exactly one document.
\<close>

fun json_loads :: "'a list \<Rightarrow> exc + 'a" where
  "json_loads [] = Inl (JSONDecodeError ''Expecting value'')"
| "json_loads [d] = Inr d"
| "json_loads (d # e # ds) = Inl (JSONDecodeError ''Extra data'')"

text \<open>
  A string is a list of characters with code points below 256. \<^verbatim>\<open>str.strip()\<close> removes
  white space at both ends: the ASCII white space, the next-line character \<^verbatim>\<open>U+0085\<close> and
  the no-break space \<^verbatim>\<open>U+00A0\<close>.
\<close>

definition nl :: char where
  "nl = CHR 0x0A"

definition py_space :: "char \<Rightarrow> bool" where
  "py_space c = (c \<in> set [CHR 0x09, CHR 0x0A, CHR 0x0B, CHR 0x0C, CHR 0x0D,
                           CHR 0x1C, CHR 0x1D, CHR 0x1E, CHR 0x1F, CHR 0x20,
                           CHR 0x85, CHR 0xA0])"

definition py_strip :: "string \<Rightarrow> string" where
  "py_strip s = rev (dropWhile py_space (rev (dropWhile py_space s)))"

text \<open>\<^verbatim>\<open>s.split('\n')\<close>: always at least one piece.\<close>

fun py_split :: "char \<Rightarrow> string \<Rightarrow> string list" where
  "py_split c [] = [[]]"
| "py_split c (x # xs) =
     (if x = c then [] # py_split c xs
      else (case py_split c xs of [] \<Rightarrow> [[x]] | l # ls \<Rightarrow> (x # l) # ls))"

text \<open>What jq prints for a stream of strings: one line each.\<close>

definition unlines :: "string list \<Rightarrow> string" where
  "unlines ls = concat (map (\<lambda>l. l @ [nl]) ls)"

definition starts_with :: "string \<Rightarrow> string \<Rightarrow> bool" where
  "starts_with p s = (take (length p) s = p)"


section \<open>The remote side\<close>

text \<open>
  What GitHub holds, as far as the script's queries can see it. Every node a query
  returns carries the fields the script asks for, with their schema types, except the
  field nodes of a project, which stay raw JSON objects: an object of another field type
  comes back empty.
\<close>

record issue =
  node_id :: string
  label_names :: "string list"

record project =
  p_id :: string
  p_number :: int
  p_title :: string

text \<open>\<open>content\<close> is the issue's node identifier when the item holds an issue.\<close>

record item =
  item_id :: string
  content :: "string option"

text \<open>
  One constructor per shape of \<^verbatim>\<open>gh api\<close> invocation in the script, holding the values
  the script formats into the arguments. The field and iteration identifiers of the two
  field mutations are the JSON values the script read, before formatting.
\<close>

datatype gh_call =
    GetNodeId string int
  | GetLabels string int string
  | ListProjects string string
  | ListItems string string
  | AddItem string string
  | ListFields string
  | SetIteration string string json json
  | ClearIteration string string json

fun is_mutation :: "gh_call \<Rightarrow> bool" where
  "is_mutation (AddItem p i) = True"
| "is_mutation (SetIteration p i f v) = True"
| "is_mutation (ClearIteration p i f) = True"
| "is_mutation c = False"

text \<open>The script's output: the stream, the sign the line starts with, and the message.\<close>

datatype stream = Stdout | Stderr

datatype sign = Plain | Warn | Note | Good | Bad

datatype msg =
    NoIterationField
  | NoCurrentIteration
  | FailedToSetIteration exc
  | NoSprintIterationField
  | FailedToClearIteration exc
  | SprintForIssue string int
  | IssueNodeId string
  | NoBuildLabel
  | PleaseAddBuildLabel
  | NoBuildLabelsNothingToClear
  | FoundBuildLabels "string list"
  | Blank
  | ProcessingBuild string string
  | NoProjectForBuild string
  | FoundProject int string
  | FailedToAddIssue int
  | IssueInProject string
  | SetIterationCurrent int
  | FailedToSetIn int
  | IssueNotInProject int
  | ClearedSprint int
  | FailedToClearIn int
  | SprintComplete string int
  | NoProjectsUpdated
  | Failure exc
  | ProcessingLabel string
  | NoProjectWithTitle string
  | ProjectId string
  | IssueInProjectNo int string
  | FailedToAddTo int
  | LabelRequired

type_synonym line = "stream \<times> sign \<times> msg"

text \<open>
  The world: GitHub's data, the outcome of every call, and what the run has done so far.
  \<^item> \<open>outage n c\<close> is the error text of call \<open>c\<close> when it is the \<open>n\<close>-th call of the run and
    \<^verbatim>\<open>gh\<close> exits non-zero, \<open>None\<close> when it goes through;
  \<^item> \<open>exotic s\<close> says what becomes of a \<^verbatim>\<open>--jq\<close> filter when the string \<open>s\<close> that the script
    pastes into it holds a double quote or a backslash, which changes the jq program:
    \<open>None\<close> when jq rejects the program, otherwise the test that the program now makes on
    the text it compares (a label name, a title, the identifier of an item's issue);
  \<^item> \<open>mint n\<close> is the identifier GitHub gives an item created by the \<open>n\<close>-th call;
  \<^item> \<open>sprint\<close> is the iteration value of an item of a project;
  \<^item> \<open>calls\<close> lists the calls made, each with whether it went through;
  \<^item> \<open>console\<close> lists the lines printed.
\<close>

record world =
  issues :: "string \<Rightarrow> int \<Rightarrow> issue"
  projects :: "string \<Rightarrow> project list"
  items :: "string \<Rightarrow> item list"
  field_nodes :: "string \<Rightarrow> jobj list"
  sprint :: "string \<times> string \<Rightarrow> json option"
  mint :: "nat \<Rightarrow> string"
  outage :: "nat \<Rightarrow> gh_call \<Rightarrow> string option"
  exotic :: "string \<Rightarrow> (string \<Rightarrow> bool) option"
  calls :: "(gh_call \<times> bool) list"
  console :: "line list"

definition say :: "stream \<Rightarrow> sign \<Rightarrow> msg \<Rightarrow> world \<Rightarrow> world" where
  "say st sg m w = w\<lparr>console := console w @ [(st, sg, m)]\<rparr>"

definition jq_plain :: "string \<Rightarrow> bool" where
  "jq_plain s = (CHR 0x22 \<notin> set s \<and> CHR 0x5C \<notin> set s)"

text \<open>
  The test of a filter that has \<open>s\<close> pasted between double quotes: the test the script
  wrote, \<open>plain\<close>, when \<open>s\<close> has no double quote or backslash, and what \<open>exotic\<close> says
  otherwise.
\<close>

definition jq_filter :: "world \<Rightarrow> (string \<Rightarrow> bool) \<Rightarrow> string \<Rightarrow> string + (string \<Rightarrow> bool)" where
  "jq_filter w plain s =
     (if jq_plain s then Inr plain
      else (case exotic w s of None \<Rightarrow> Inl ''jq: error'' | Some t \<Rightarrow> Inr t))"

text \<open>\<^verbatim>\<open>select(.content.id == ...)\<close>: an item with no issue in it has no such text.\<close>

definition held :: "(string \<Rightarrow> bool) \<Rightarrow> item \<Rightarrow> bool" where
  "held t it = (case content it of None \<Rightarrow> False | Some c \<Rightarrow> t c)"

text \<open>
  What a mutation that goes through does to GitHub. Adding a content that the project
  already holds creates nothing (GitHub answers with the item that is there); a new item
  goes to the end of the project's items.
\<close>

definition holds :: "string \<Rightarrow> item \<Rightarrow> bool" where
  "holds issue_id it = (content it = Some issue_id)"

fun served :: "gh_call \<Rightarrow> world \<Rightarrow> world" where
  "served (AddItem p i) w =
     (if filter (holds i) (items w p) = []
      then w\<lparr>items := (items w)(p := items w p @
                 [\<lparr>item_id = mint w (length (calls w)), content = Some i\<rparr>])\<rparr>
      else w)"
| "served (SetIteration p i f v) w = w\<lparr>sprint := (sprint w)((p, i) := Some v)\<rparr>"
| "served (ClearIteration p i f) w = w\<lparr>sprint := (sprint w)((p, i) := None)\<rparr>"
| "served c w = w"


section \<open>The script\<close>

subsection \<open>\<^verbatim>\<open>_run_gh_api\<close>\<close>

text \<open>
  Runs \<^verbatim>\<open>gh api\<close> and returns its output, or raises \<^verbatim>\<open>GitHubAPIError\<close> when \<^verbatim>\<open>gh\<close> exits
  non-zero. \<open>out\<close> is what the call's \<^verbatim>\<open>--jq\<close> filter prints from GitHub's answer: text
  for a filter that selects strings, the selected nodes for a filter that selects
  objects. The \<^verbatim>\<open>.strip()\<close> of the source is \<open>stripped\<close>, applied where the output is text.
\<close>

definition run_gh_api ::
  "world \<Rightarrow> gh_call \<Rightarrow> (world \<Rightarrow> string + 'a) \<Rightarrow> (exc + 'a) \<times> world" where
  "run_gh_api w c out =
     (case outage w (length (calls w)) c of
        Some err \<Rightarrow>
          (Inl (GitHubAPIError (''API call failed: '' @ err)),
           w\<lparr>calls := calls w @ [(c, False)]\<rparr>)
      | None \<Rightarrow>
          (case out (served c w) of
             Inl err \<Rightarrow>
               (Inl (GitHubAPIError (''API call failed: '' @ err)),
                w\<lparr>calls := calls w @ [(c, False)]\<rparr>)
           | Inr r \<Rightarrow> (Inr r, (served c w)\<lparr>calls := calls w @ [(c, True)]\<rparr>)))"

definition stripped :: "string + string \<Rightarrow> string + string" where
  "stripped r = (case r of Inl err \<Rightarrow> Inl err | Inr s \<Rightarrow> Inr (py_strip s))"

text \<open>\<^verbatim>\<open>except ... as e: raise GitHubAPIError(f"<prefix>{e}")\<close>, for the classes caught.\<close>

fun reraise :: "string \<Rightarrow> exc \<Rightarrow> exc" where
  "reraise pre (GitHubAPIError m) = GitHubAPIError (pre @ m)"
| "reraise pre e = e"

fun reraise_json :: "string \<Rightarrow> exc \<Rightarrow> exc" where
  "reraise_json pre (GitHubAPIError m) = GitHubAPIError (pre @ m)"
| "reraise_json pre (JSONDecodeError m) = GitHubAPIError (pre @ m)"
| "reraise_json pre e = e"

subsection \<open>\<^verbatim>\<open>get_issue_id\<close>, \<^verbatim>\<open>get_labels_by_prefix\<close>\<close>

definition get_issue_id :: "world \<Rightarrow> string \<Rightarrow> int \<Rightarrow> (exc + string) \<times> world" where
  "get_issue_id w repository issue_number =
     (case run_gh_api w (GetNodeId repository issue_number)
             (\<lambda>r. stripped (Inr (unlines [node_id (issues r repository issue_number)]))) of
        (Inl e, w') \<Rightarrow> (Inl (reraise ''Failed to get issue ID: '' e), w')
      | (Inr result, w') \<Rightarrow> (Inr result, w'))"

definition get_labels_by_prefix ::
  "world \<Rightarrow> string \<Rightarrow> int \<Rightarrow> string \<Rightarrow> (exc + string list) \<times> world" where
  "get_labels_by_prefix w repository issue_number pre =
     (case run_gh_api w (GetLabels repository issue_number pre)
             (\<lambda>r. stripped
                (case jq_filter r (starts_with pre) pre of
                   Inl err \<Rightarrow> Inl err
                 | Inr t \<Rightarrow>
                     Inr (unlines (filter t
                            (label_names (issues r repository issue_number)))))) of
        (Inl e, w') \<Rightarrow> (Inl (reraise ''Failed to get labels: '' e), w')
      | (Inr result, w') \<Rightarrow> (Inr (filter (\<lambda>l. l \<noteq> []) (py_split nl result)), w'))"

subsection \<open>\<^verbatim>\<open>get_project_by_title\<close>\<close>

text \<open>The query asks for \<^verbatim>\<open>projectsV2(first: 100)\<close>; the filter keeps the nodes whose title
  equals the string pasted in.\<close>

definition get_project_by_title ::
  "world \<Rightarrow> string \<Rightarrow> string \<Rightarrow> (exc + project option) \<times> world" where
  "get_project_by_title w org title =
     (case run_gh_api w (ListProjects org title)
             (\<lambda>r. case jq_filter r (\<lambda>t. t = title) title of
                     Inl err \<Rightarrow> Inl err
                   | Inr t \<Rightarrow> Inr (filter (\<lambda>p. t (p_title p)) (take 100 (projects r org)))) of
        (Inl e, w') \<Rightarrow> (Inl (reraise_json ''Failed to get project by title: '' e), w')
      | (Inr result, w') \<Rightarrow>
          if result = [] then (Inr None, w')
          else (case json_loads result of
                  Inl e \<Rightarrow> (Inl (reraise_json ''Failed to get project by title: '' e), w')
                | Inr d \<Rightarrow> (Inr (Some d), w')))"

subsection \<open>\<^verbatim>\<open>is_issue_in_project\<close>, \<^verbatim>\<open>add_issue_to_project\<close>, \<^verbatim>\<open>ensure_issue_in_project\<close>\<close>

text \<open>The query asks for \<^verbatim>\<open>items(first: 100)\<close>; the filter prints the identifier of every
  item among them whose content is the issue.\<close>

definition is_issue_in_project ::
  "world \<Rightarrow> string \<Rightarrow> string \<Rightarrow> (exc + string option) \<times> world" where
  "is_issue_in_project w project_id issue_id =
     (case run_gh_api w (ListItems project_id issue_id)
             (\<lambda>r. stripped
                (case jq_filter r (\<lambda>c. c = issue_id) issue_id of
                   Inl err \<Rightarrow> Inl err
                 | Inr t \<Rightarrow>
                     Inr (unlines (map item_id
                            (filter (held t) (take 100 (items r project_id))))))) of
        (Inl e, w') \<Rightarrow> (Inl (reraise ''Failed to check if issue in project: '' e), w')
      | (Inr result, w') \<Rightarrow> (Inr (if result \<noteq> [] then Some result else None), w'))"

text \<open>The mutation answers with the item that holds the issue once it is served.\<close>

definition add_issue_to_project ::
  "world \<Rightarrow> string \<Rightarrow> string \<Rightarrow> (exc + string) \<times> world" where
  "add_issue_to_project w project_id issue_id =
     (case run_gh_api w (AddItem project_id issue_id)
             (\<lambda>r. stripped (Inr (unlines (map item_id
                      (take 1 (filter (holds issue_id) (items r project_id))))))) of
        (Inl e, w') \<Rightarrow> (Inl (reraise ''Failed to add issue to project: '' e), w')
      | (Inr result, w') \<Rightarrow> (Inr result, w'))"

definition ensure_issue_in_project ::
  "world \<Rightarrow> string \<Rightarrow> string \<Rightarrow> (exc + string) \<times> world" where
  "ensure_issue_in_project w project_id issue_id =
     (case is_issue_in_project w project_id issue_id of
        (Inl e, w') \<Rightarrow> (Inl e, w')
      | (Inr None, w') \<Rightarrow> add_issue_to_project w' project_id issue_id
      | (Inr (Some itm), w') \<Rightarrow>
          if itm \<noteq> [] then (Inr itm, w') else add_issue_to_project w' project_id issue_id)"

subsection \<open>\<^verbatim>\<open>get_iteration_field\<close>\<close>

definition sprint_named :: "jobj \<Rightarrow> bool" where
  "sprint_named f =
     (map_of f ''name'' = Some (JString ''Iteration'') \<or>
      map_of f ''name'' = Some (JString ''Sprint''))"

definition get_iteration_field :: "world \<Rightarrow> string \<Rightarrow> (exc + jobj option) \<times> world" where
  "get_iteration_field w project_id =
     (case run_gh_api w (ListFields project_id)
             (\<lambda>r. Inr (filter sprint_named (take 20 (field_nodes r project_id)))) of
        (Inl e, w') \<Rightarrow> (Inl (reraise_json ''Failed to get iteration field: '' e), w')
      | (Inr result, w') \<Rightarrow>
          if result = [] then (Inr None, w')
          else (case json_loads result of
                  Inl e \<Rightarrow> (Inl (reraise_json ''Failed to get iteration field: '' e), w')
                | Inr d \<Rightarrow> (Inr (Some d), w')))"

subsection \<open>\<^verbatim>\<open>set_iteration_to_current\<close>\<close>

text \<open>\<^verbatim>\<open>field_data.get('configuration', {}).get('iterations', [])\<close>\<close>

definition iterations_of :: "jobj \<Rightarrow> exc + json" where
  "iterations_of field_data =
     (case py_get (JObject field_data) ''configuration'' (JObject []) of
        Inl e \<Rightarrow> Inl e
      | Inr conf \<Rightarrow> py_get conf ''iterations'' (JArray []))"

text \<open>The body of the \<^verbatim>\<open>try\<close>, then the handler for \<^verbatim>\<open>(GitHubAPIError, KeyError)\<close>.\<close>

definition set_iteration_try :: "world \<Rightarrow> string \<Rightarrow> string \<Rightarrow> (exc + bool) \<times> world" where
  "set_iteration_try w project_id itm =
     (case get_iteration_field w project_id of
        (Inl e, w1) \<Rightarrow> (Inl e, w1)
      | (Inr None, w1) \<Rightarrow> (Inr False, say Stderr Warn NoIterationField w1)
      | (Inr (Some field_data), w1) \<Rightarrow>
          if field_data = [] then (Inr False, say Stderr Warn NoIterationField w1)
          else
          (case py_item (JObject field_data) ''id'' of
             Inl e \<Rightarrow> (Inl e, w1)
           | Inr field_id \<Rightarrow>
          (case iterations_of field_data of
             Inl e \<Rightarrow> (Inl e, w1)
           | Inr iterations \<Rightarrow>
          if \<not> truthy iterations then (Inr False, say Stderr Warn NoCurrentIteration w1)
          else
          (case py_first iterations of
             Inl e \<Rightarrow> (Inl e, w1)
           | Inr current \<Rightarrow>
          (case py_item current ''id'' of
             Inl e \<Rightarrow> (Inl e, w1)
           | Inr current_iteration_id \<Rightarrow>
          (case run_gh_api w1
                  (SetIteration project_id itm field_id current_iteration_id)
                  (\<lambda>r. Inr ()) of
             (Inl e, w2) \<Rightarrow> (Inl e, w2)
           | (Inr u, w2) \<Rightarrow> (Inr True, w2)))))))"

fun caught :: "exc \<Rightarrow> bool" where
  "caught (GitHubAPIError m) = True"
| "caught (KeyError k) = True"
| "caught e = False"

definition set_iteration_to_current ::
  "world \<Rightarrow> string \<Rightarrow> string \<Rightarrow> (exc + bool) \<times> world" where
  "set_iteration_to_current w project_id itm =
     (case set_iteration_try w project_id itm of
        (Inl e, w') \<Rightarrow>
          if caught e then (Inr False, say Stderr Warn (FailedToSetIteration e) w')
          else (Inl e, w')
      | (Inr b, w') \<Rightarrow> (Inr b, w'))"

subsection \<open>\<^verbatim>\<open>clear_iteration\<close>\<close>

definition clear_iteration_try :: "world \<Rightarrow> string \<Rightarrow> string \<Rightarrow> (exc + bool) \<times> world" where
  "clear_iteration_try w project_id itm =
     (case get_iteration_field w project_id of
        (Inl e, w1) \<Rightarrow> (Inl e, w1)
      | (Inr None, w1) \<Rightarrow> (Inr False, say Stderr Warn NoSprintIterationField w1)
      | (Inr (Some field_data), w1) \<Rightarrow>
          if field_data = [] then (Inr False, say Stderr Warn NoSprintIterationField w1)
          else
          (case py_item (JObject field_data) ''id'' of
             Inl e \<Rightarrow> (Inl e, w1)
           | Inr field_id \<Rightarrow>
          (case run_gh_api w1 (ClearIteration project_id itm field_id) (\<lambda>r. Inr ()) of
             (Inl e, w2) \<Rightarrow> (Inl e, w2)
           | (Inr u, w2) \<Rightarrow> (Inr True, w2))))"

definition clear_iteration :: "world \<Rightarrow> string \<Rightarrow> string \<Rightarrow> (exc + bool) \<times> world" where
  "clear_iteration w project_id itm =
     (case clear_iteration_try w project_id itm of
        (Inl e, w') \<Rightarrow>
          if caught e then (Inr False, say Stderr Warn (FailedToClearIteration e) w')
          else (Inl e, w')
      | (Inr b, w') \<Rightarrow> (Inr b, w'))"

subsection \<open>\<^verbatim>\<open>process_sprint_for_build_labels\<close>\<close>

text \<open>
  One pass of the \<^verbatim>\<open>for build_label in build_labels\<close> loop. The result says whether the
  pass reached \<^verbatim>\<open>success_count += 1\<close>.
\<close>

definition sprint_step ::
  "world \<Rightarrow> string \<Rightarrow> string \<Rightarrow> string \<Rightarrow> string \<Rightarrow> (exc + bool) \<times> world" where
  "sprint_step w org issue_id act build_label =
     (case get_project_by_title (say Stdout Plain (ProcessingBuild act build_label) w)
             org build_label of
        (Inl e, w1) \<Rightarrow> (Inl e, w1)
      | (Inr None, w1) \<Rightarrow>
          (Inr False,
           say Stdout Plain Blank (say Stdout Warn (NoProjectForBuild build_label) w1))
      | (Inr (Some project_data), w1) \<Rightarrow>
          (let project_id = p_id project_data;
               project_number = p_number project_data;
               w2 = say Stdout Plain (FoundProject project_number build_label) w1
           in
           if act = ''add'' then
             (case ensure_issue_in_project w2 project_id issue_id of
                (Inl e, w3) \<Rightarrow> (Inl e, w3)
              | (Inr itm, w3) \<Rightarrow>
                  if itm = [] then
                    (Inr False,
                     say Stdout Plain Blank (say Stdout Bad (FailedToAddIssue project_number) w3))
                  else
                    (case set_iteration_to_current
                            (say Stdout Good (IssueInProject itm) w3) project_id itm of
                       (Inl e, w4) \<Rightarrow> (Inl e, w4)
                     | (Inr ok, w4) \<Rightarrow>
                         if ok then
                           (Inr True,
                            say Stdout Plain Blank
                              (say Stdout Good (SetIterationCurrent project_number) w4))
                         else
                           (Inr False,
                            say Stdout Plain Blank
                              (say Stdout Bad (FailedToSetIn project_number) w4))))
           else
             (case is_issue_in_project w2 project_id issue_id of
                (Inl e, w3) \<Rightarrow> (Inl e, w3)
              | (Inr found, w3) \<Rightarrow>
                  (case found of
                     None \<Rightarrow>
                       (Inr False,
                        say Stdout Plain Blank
                          (say Stdout Note (IssueNotInProject project_number) w3))
                   | Some itm \<Rightarrow>
                       if itm = [] then
                         (Inr False,
                          say Stdout Plain Blank
                            (say Stdout Note (IssueNotInProject project_number) w3))
                       else
                         (case clear_iteration
                                 (say Stdout Good (IssueInProject itm) w3) project_id itm of
                            (Inl e, w4) \<Rightarrow> (Inl e, w4)
                          | (Inr ok, w4) \<Rightarrow>
                              if ok then
                                (Inr True,
                                 say Stdout Plain Blank
                                   (say Stdout Good (ClearedSprint project_number) w4))
                              else
                                (Inr False,
                                 say Stdout Plain Blank
                                   (say Stdout Bad (FailedToClearIn project_number) w4)))))))"

fun sprint_loop ::
  "world \<Rightarrow> string \<Rightarrow> string \<Rightarrow> string \<Rightarrow> string list \<Rightarrow> int \<Rightarrow> (exc + int) \<times> world" where
  "sprint_loop w org issue_id act [] success_count = (Inr success_count, w)"
| "sprint_loop w org issue_id act (build_label # rest) success_count =
     (case sprint_step w org issue_id act build_label of
        (Inl e, w') \<Rightarrow> (Inl e, w')
      | (Inr counted, w') \<Rightarrow>
          sprint_loop w' org issue_id act rest
            (if counted then success_count + 1 else success_count))"

text \<open>The body of the \<^verbatim>\<open>try\<close>, then the handler: \<^verbatim>\<open>except GitHubAPIError\<close> prints the error
  and calls \<^verbatim>\<open>sys.exit(1)\<close>.\<close>

definition sprint_try ::
  "world \<Rightarrow> string \<Rightarrow> int \<Rightarrow> string \<Rightarrow> string \<Rightarrow> (exc + int) \<times> world" where
  "sprint_try w repository issue_number org act =
     (case get_issue_id w repository issue_number of
        (Inl e, w1) \<Rightarrow> (Inl e, w1)
      | (Inr issue_id, w1) \<Rightarrow>
     (case get_labels_by_prefix (say Stdout Plain (IssueNodeId issue_id) w1)
             repository issue_number ''B'' of
        (Inl e, w2) \<Rightarrow> (Inl e, w2)
      | (Inr build_labels, w2) \<Rightarrow>
          if build_labels = [] then
            (if act = ''add'' then
               (Inr 0, say Stdout Note PleaseAddBuildLabel (say Stdout Warn NoBuildLabel w2))
             else (Inr 0, say Stdout Note NoBuildLabelsNothingToClear w2))
          else
            (case sprint_loop
                    (say Stdout Plain Blank (say Stdout Plain (FoundBuildLabels build_labels) w2))
                    org issue_id act build_labels 0 of
               (Inl e, w3) \<Rightarrow> (Inl e, w3)
             | (Inr success_count, w3) \<Rightarrow>
                 if success_count > 0 then
                   (Inr success_count,
                    say Stdout Good (SprintComplete act success_count) w3)
                 else (Inr success_count, say Stdout Warn NoProjectsUpdated w3))))"

fun is_api_error :: "exc \<Rightarrow> bool" where
  "is_api_error (GitHubAPIError m) = True"
| "is_api_error e = False"

definition process_sprint_for_build_labels ::
  "world \<Rightarrow> string \<Rightarrow> int \<Rightarrow> string \<Rightarrow> string \<Rightarrow> (exc + int) \<times> world" where
  "process_sprint_for_build_labels w repository issue_number org act =
     (case sprint_try
             (say Stdout Plain
                (SprintForIssue (if act = ''add'' then ''Adding to'' else ''Removing from'')
                   issue_number) w)
             repository issue_number org act of
        (Inl e, w') \<Rightarrow>
          if is_api_error e then (Inl (SystemExit 1), say Stderr Bad (Failure e) w')
          else (Inl e, w')
      | (Inr n, w') \<Rightarrow> (Inr n, w'))"

subsection \<open>\<^verbatim>\<open>add_issue_to_build_project\<close>\<close>

definition build_project_try ::
  "world \<Rightarrow> string \<Rightarrow> int \<Rightarrow> string \<Rightarrow> string \<Rightarrow> (exc + bool) \<times> world" where
  "build_project_try w repository issue_number org lbl =
     (case get_issue_id w repository issue_number of
        (Inl e, w1) \<Rightarrow> (Inl e, w1)
      | (Inr issue_id, w1) \<Rightarrow>
     (case get_project_by_title (say Stdout Plain (IssueNodeId issue_id) w1) org lbl of
        (Inl e, w2) \<Rightarrow> (Inl e, w2)
      | (Inr None, w2) \<Rightarrow> (Inr False, say Stdout Warn (NoProjectWithTitle lbl) w2)
      | (Inr (Some project_data), w2) \<Rightarrow>
          (let project_id = p_id project_data;
               project_number = p_number project_data
           in
           case ensure_issue_in_project
                  (say Stdout Plain (ProjectId project_id)
                     (say Stdout Plain (FoundProject project_number lbl) w2))
                  project_id issue_id of
             (Inl e, w3) \<Rightarrow> (Inl e, w3)
           | (Inr itm, w3) \<Rightarrow>
               if itm \<noteq> [] then
                 (Inr True, say Stdout Good (IssueInProjectNo project_number itm) w3)
               else (Inr False, say Stdout Bad (FailedToAddTo project_number) w3))))"

definition add_issue_to_build_project ::
  "world \<Rightarrow> string \<Rightarrow> int \<Rightarrow> string \<Rightarrow> string \<Rightarrow> (exc + bool) \<times> world" where
  "add_issue_to_build_project w repository issue_number org lbl =
     (case build_project_try (say Stdout Plain (ProcessingLabel lbl) w)
             repository issue_number org lbl of
        (Inl e, w') \<Rightarrow>
          if is_api_error e then (Inl (SystemExit 1), say Stderr Bad (Failure e) w')
          else (Inl e, w')
      | (Inr b, w') \<Rightarrow> (Inr b, w'))"

subsection \<open>\<^verbatim>\<open>main\<close>\<close>

text \<open>The parsed command line. \<open>a_label\<close> is \<open>None\<close> when \<^verbatim>\<open>--label\<close> is not given.\<close>

record args =
  a_action :: string
  a_repository :: string
  a_issue_number :: int
  a_org :: string
  a_label :: "string option"

text \<open>\<^verbatim>\<open>main\<close> after \<^verbatim>\<open>parse_args\<close>; an action outside \<^verbatim>\<open>choices\<close> is argparse's exit 2.\<close>

definition main_run :: "world \<Rightarrow> args \<Rightarrow> (exc + unit) \<times> world" where
  "main_run w a =
     (if a_action a \<notin> set [''add-to-sprint'', ''remove-from-sprint'', ''add-to-build-project'']
      then (Inl (SystemExit 2), w)
      else if a_action a = ''add-to-build-project'' then
        (case a_label a of
           None \<Rightarrow> (Inl (SystemExit 1), say Stderr Bad LabelRequired w)
         | Some lbl \<Rightarrow>
             if lbl = [] then (Inl (SystemExit 1), say Stderr Bad LabelRequired w)
             else
               (case add_issue_to_build_project w (a_repository a) (a_issue_number a)
                       (a_org a) lbl of
                  (Inl e, w') \<Rightarrow> (Inl e, w')
                | (Inr success, w') \<Rightarrow> (Inl (SystemExit (if success then 0 else 1)), w')))
      else
        (case process_sprint_for_build_labels w (a_repository a) (a_issue_number a) (a_org a)
                (if a_action a = ''add-to-sprint'' then ''add'' else ''remove'') of
           (Inl e, w') \<Rightarrow> (Inl e, w')
         | (Inr success_count, w') \<Rightarrow>
             if success_count = 0 then
               (case get_labels_by_prefix w' (a_repository a) (a_issue_number a) ''B'' of
                  (Inl e, w'') \<Rightarrow>
                    if is_api_error e then (Inl (SystemExit 1), w'') else (Inl e, w'')
                | (Inr labels, w'') \<Rightarrow>
                    if labels \<noteq> [] then (Inl (SystemExit 1), w'') else (Inr (), w''))
             else (Inr (), w')))"

text \<open>The status of the process: that of \<^verbatim>\<open>sys.exit\<close>, 1 for an exception nobody caught,
  0 when \<^verbatim>\<open>main\<close> returns.\<close>

fun exit_status :: "exc + unit \<Rightarrow> int" where
  "exit_status (Inr u) = 0"
| "exit_status (Inl (SystemExit n)) = n"
| "exit_status (Inl e) = 1"

definition main :: "world \<Rightarrow> args \<Rightarrow> int \<times> world" where
  "main w a = (case main_run w a of (r, w') \<Rightarrow> (exit_status r, w'))"


section \<open>Vocabulary of the properties\<close>

text \<open>The mutation calls a run has attempted, and the set-iteration calls that went through.\<close>

definition mutations :: "world \<Rightarrow> gh_call list" where
  "mutations w = filter is_mutation (map fst (calls w))"



text \<open>The warnings a run has printed.\<close>

definition warnings :: "world \<Rightarrow> msg list" where
  "warnings w = map (\<lambda>l. snd (snd l)) (filter (\<lambda>l. fst (snd l) = Warn) (console w))"

text \<open>
  What the item query prints for an issue (the identifiers of the items that hold it among
  the first 100 of the project), and what the add mutation prints (the identifier of the
  item that holds it), both as \<^verbatim>\<open>_run_gh_api\<close> returns them.
\<close>

definition scan :: "world \<Rightarrow> string \<Rightarrow> string \<Rightarrow> string" where
  "scan w p i = py_strip (unlines (map item_id (filter (holds i) (take 100 (items w p)))))"

definition holder :: "world \<Rightarrow> string \<Rightarrow> string \<Rightarrow> string" where
  "holder w p i = py_strip (unlines (map item_id (take 1 (filter (holds i) (items w p)))))"

text \<open>GitHub's invariant: a project holds an issue in at most one item.\<close>

definition single :: "world \<Rightarrow> bool" where
  "single w = (\<forall>p i. length (filter (holds i) (items w p)) \<le> 1)"

text \<open>The world after the field query of project \<open>p\<close> went through.\<close>

definition listed :: "world \<Rightarrow> string \<Rightarrow> world" where
  "listed w p = w\<lparr>calls := calls w @ [(ListFields p, True)]\<rparr>"

subsection \<open>Sample worlds\<close>

text \<open>A GitHub with nothing in it, where every call goes through.\<close>

definition quiet :: world where
  "quiet = \<lparr>issues = (\<lambda>r n. \<lparr>node_id = [], label_names = []\<rparr>),
            projects = (\<lambda>org. []), items = (\<lambda>p. []), field_nodes = (\<lambda>p. []),
            sprint = (\<lambda>k. None), mint = (\<lambda>n. ''PVTI_'' @ replicate n CHR ''i''),
            outage = (\<lambda>n c. None), exotic = (\<lambda>s. None), calls = [], console = []\<rparr>"

definition sprint_field :: jobj where
  "sprint_field =
     [(''id'', JString ''F_1''), (''name'', JString ''Sprint''),
      (''configuration'', JObject
         [(''iterations'', JArray
             [JObject [(''id'', JString ''it_2''), (''title'', JString ''Sprint 2'')],
              JObject [(''id'', JString ''it_3''), (''title'', JString ''Sprint 3'')]]),
          (''completedIterations'', JArray
             [JObject [(''id'', JString ''it_1''), (''title'', JString ''Sprint 1'')]])])]"

text \<open>An iteration field with no open iteration, and one that lost its identifier.\<close>

definition idle_field :: jobj where
  "idle_field =
     [(''id'', JString ''F_1''), (''name'', JString ''Iteration''),
      (''configuration'', JObject [(''iterations'', JArray [])])]"






text \<open>
  Issue 7 carries the labels \<^verbatim>\<open>bug\<close>, \<^verbatim>\<open>B16\<close> and \<^verbatim>\<open>B17\<close>; the organization has the
  projects \<^verbatim>\<open>B15\<close> and \<^verbatim>\<open>B16\<close>; every project has the field nodes \<open>fs\<close>.
\<close>

definition board :: "jobj list \<Rightarrow> world" where
  "board fs = quiet
     \<lparr>issues := (\<lambda>r n. \<lparr>node_id = ''I_7'', label_names = [''bug'', ''B16'', ''B17'']\<rparr>),
      projects := (\<lambda>org. [\<lparr>p_id = ''PVT_15'', p_number = 3, p_title = ''B15''\<rparr>,
                           \<lparr>p_id = ''PVT_16'', p_number = 4, p_title = ''B16''\<rparr>]),
      field_nodes := (\<lambda>p. fs)\<rparr>"

text \<open>The same, with the clear mutation failing.\<close>

definition clear_down :: world where
  "clear_down = (board [[], sprint_field])
     \<lparr>outage := (\<lambda>n c. case c of ClearIteration p i f \<Rightarrow> Some ''HTTP 502'' | _ \<Rightarrow> None)\<rparr>"





text \<open>Issue 7 without a build label.\<close>

definition unlabelled :: world where
  "unlabelled = (board [[], sprint_field])
     \<lparr>issues := (\<lambda>r n. \<lparr>node_id = ''I_7'', label_names = [''bug'', ''sprint-backlog'']\<rparr>)\<rparr>"


text \<open>Project \<^verbatim>\<open>PVT_16\<close> with a hundred draft items in it.\<close>

definition full_project :: world where
  "full_project = (board [[], sprint_field])
     \<lparr>items := (\<lambda>p. replicate 100 \<lparr>item_id = ''PVTI_draft'', content = None\<rparr>)\<rparr>"

text \<open>The command line for issue 7 of \<^verbatim>\<open>NASA-PDS/repo\<close>.\<close>

definition cli :: "string \<Rightarrow> string option \<Rightarrow> args" where
  "cli action_name lbl =
     \<lparr>a_action = action_name, a_repository = ''NASA-PDS/repo'', a_issue_number = 7,
      a_org = ''NASA-PDS'', a_label = lbl\<rparr>"


section \<open>Properties\<close>

subsection \<open>What a call leaves behind\<close>


lemma served_outage: "outage (served c w) = outage w"
  by (cases c) simp_all

lemma say_simps:
  "calls (say st sg m w) = calls w"
  "outage (say st sg m w) = outage w"
  "exotic (say st sg m w) = exotic w"
  "items (say st sg m w) = items w"
  "projects (say st sg m w) = projects w"
  "issues (say st sg m w) = issues w"
  "field_nodes (say st sg m w) = field_nodes w"
  "sprint (say st sg m w) = sprint w"
  "mint (say st sg m w) = mint w"
  "console (say st sg m w) = console w @ [(st, sg, m)]"
  by (simp_all add: say_def)


lemma run_gh_api_raises:
  "run_gh_api w c out = (Inl e, w') \<Longrightarrow> is_api_error e"
  by (auto simp: run_gh_api_def split: option.splits sum.splits)

subsection \<open>The iteration field\<close>

lemma get_iteration_field_absent:
  "outage w (length (calls w)) (ListFields p) = None \<Longrightarrow>
   filter sprint_named (take 20 (field_nodes w p)) = [] \<Longrightarrow>
   get_iteration_field w p = (Inr None, listed w p)"
  by (simp add: get_iteration_field_def run_gh_api_def listed_def)

lemma get_iteration_field_one:
  "outage w (length (calls w)) (ListFields p) = None \<Longrightarrow>
   filter sprint_named (take 20 (field_nodes w p)) = [f] \<Longrightarrow>
   get_iteration_field w p = (Inr (Some f), listed w p)"
  by (simp add: get_iteration_field_def run_gh_api_def listed_def)

lemma get_iteration_field_raises:
  "get_iteration_field w p = (Inl e, w') \<Longrightarrow> is_api_error e"
  by (auto simp: get_iteration_field_def
      split: prod.splits sum.splits if_splits list.splits
      dest!: run_gh_api_raises elim!: is_api_error.elims json_loads.elims)

lemma sprint_named_nonempty: "sprint_named f \<Longrightarrow> f \<noteq> []"
  by (auto simp: sprint_named_def)

lemma selected_nonempty: "filter sprint_named xs = [f] \<Longrightarrow> f \<noteq> []"
  by (metis filter_eq_ConsD sprint_named_nonempty)

lemma listed_simps:
  "calls (listed w p) = calls w @ [(ListFields p, True)]"
  "outage (listed w p) = outage w"
  "sprint (listed w p) = sprint w"
  "console (listed w p) = console w"
  "items (listed w p) = items w"
  by (simp_all add: listed_def)




text \<open>
  C4. When the field query goes through and finds no iteration field, or finds one whose
  \<open>iterations\<close> is the empty list, \<open>set_iteration_to_current\<close> returns \<open>False\<close> (it does not
  raise), prints one warning on the error stream, and has made the field query and no
  other call: no mutation is attempted.
\<close>

theorem set_current_iteration_absent_or_empty:
  assumes "outage w (length (calls w)) (ListFields p) = None"
    and "filter sprint_named (take 20 (field_nodes w p)) = sel"
    and "sel = [] \<or>
         (sel = [f] \<and> map_of f ''id'' = Some fid \<and> iterations_of f = Inr (JArray []))"
  shows "set_iteration_to_current w p i =
           (Inr False,
            say Stderr Warn (if sel = [] then NoIterationField else NoCurrentIteration)
              (listed w p)) \<and>
         mutations (snd (set_iteration_to_current w p i)) = mutations w"
proof (cases "sel = []")
  case True
  then show ?thesis
    using assms(1,2)
    by (simp add: set_iteration_to_current_def set_iteration_try_def
        get_iteration_field_absent mutations_def say_simps listed_simps)
next
  case False
  with assms(3) have f: "sel = [f]" "map_of f ''id'' = Some fid"
    "iterations_of f = Inr (JArray [])"
    by auto
  have "f \<noteq> []"
    using assms(2) f(1) by (simp add: selected_nonempty)
  then show ?thesis
    using assms(1,2) f
    by (simp add: set_iteration_to_current_def set_iteration_try_def
        get_iteration_field_one mutations_def say_simps listed_simps)
qed

theorem set_current_iteration_absent_or_empty_witness:
  "set_iteration_to_current (board [[]]) ''PVT_16'' ''PVTI_1'' =
     (Inr False, say Stderr Warn NoIterationField (listed (board [[]]) ''PVT_16'')) \<and>
   mutations (snd (set_iteration_to_current (board [[]]) ''PVT_16'' ''PVTI_1'')) = [] \<and>
   set_iteration_to_current (board [[], idle_field]) ''PVT_16'' ''PVTI_1'' =
     (Inr False,
      say Stderr Warn NoCurrentIteration (listed (board [[], idle_field]) ''PVT_16'')) \<and>
   mutations (snd (set_iteration_to_current (board [[], idle_field]) ''PVT_16'' ''PVTI_1'')) = []"
  using set_current_iteration_absent_or_empty
    [of "board [[]]" "''PVT_16''" "[]" idle_field "JString ''F_1''" "''PVTI_1''"]
    set_current_iteration_absent_or_empty
    [of "board [[], idle_field]" "''PVT_16''" "[idle_field]" idle_field "JString ''F_1''"
        "''PVTI_1''"]
  by (simp add: board_def quiet_def idle_field_def sprint_named_def iterations_of_def
      mutations_def say_def listed_def)

lemma clear_iteration_try_raises:
  "clear_iteration_try w p i = (Inl e, w') \<Longrightarrow> caught e"
  by (auto simp: clear_iteration_try_def
      split: prod.splits sum.splits option.splits if_splits
      dest!: get_iteration_field_raises run_gh_api_raises elim!: is_api_error.elims)

lemma clear_iteration_total:
  "fst (clear_iteration w p i) = Inr True \<or> fst (clear_iteration w p i) = Inr False"
  by (auto simp: clear_iteration_def split: prod.splits sum.splits
      dest: clear_iteration_try_raises)

lemma clear_iteration_absent:
  assumes "outage w (length (calls w)) (ListFields p) = None"
    and "filter sprint_named (take 20 (field_nodes w p)) = []"
  shows "clear_iteration w p i =
           (Inr False, say Stderr Warn NoSprintIterationField (listed w p))"
  using assms
  by (simp add: clear_iteration_def clear_iteration_try_def get_iteration_field_absent)

lemma clear_iteration_mutation_fails:
  assumes "outage w (length (calls w)) (ListFields p) = None"
    and "filter sprint_named (take 20 (field_nodes w p)) = [f]"
    and "map_of f ''id'' = Some fid"
    and "outage w (Suc (length (calls w))) (ClearIteration p i fid) = Some err"
  shows "clear_iteration w p i =
           (Inr False,
            say Stderr Warn
              (FailedToClearIteration (GitHubAPIError (''API call failed: '' @ err)))
              (w\<lparr>calls := calls w @ [(ListFields p, True), (ClearIteration p i fid, False)]\<rparr>))"
  using assms selected_nonempty[OF assms(2)]
  by (simp add: clear_iteration_def clear_iteration_try_def get_iteration_field_one
      run_gh_api_def listed_def)

text \<open>
  C8. \<open>clear_iteration\<close> always returns a boolean: it never raises. When the field query
  goes through and finds no iteration field, it returns \<open>False\<close> with a warning and makes no
  other call. When the field is found and the clear mutation fails, the error is caught:
  the result is \<open>False\<close>, and the warning printed on the error stream carries the error.
\<close>

theorem clear_iteration_returns_boolean:
  "(fst (clear_iteration w p i) = Inr True \<or> fst (clear_iteration w p i) = Inr False) \<and>
   (outage w (length (calls w)) (ListFields p) = None \<and>
    filter sprint_named (take 20 (field_nodes w p)) = [] \<longrightarrow>
      clear_iteration w p i =
        (Inr False, say Stderr Warn NoSprintIterationField (listed w p))) \<and>
   (outage w (length (calls w)) (ListFields p) = None \<and>
    filter sprint_named (take 20 (field_nodes w p)) = [f] \<and>
    map_of f ''id'' = Some fid \<and>
    outage w (Suc (length (calls w))) (ClearIteration p i fid) = Some err \<longrightarrow>
      clear_iteration w p i =
        (Inr False,
         say Stderr Warn
           (FailedToClearIteration (GitHubAPIError (''API call failed: '' @ err)))
           (w\<lparr>calls := calls w @ [(ListFields p, True), (ClearIteration p i fid, False)]\<rparr>)))"
  using clear_iteration_total clear_iteration_absent clear_iteration_mutation_fails
  by blast

theorem clear_iteration_returns_boolean_witness:
  "clear_iteration (board [[]]) ''PVT_16'' ''PVTI_1'' =
     (Inr False, say Stderr Warn NoSprintIterationField (listed (board [[]]) ''PVT_16'')) \<and>
   clear_iteration clear_down ''PVT_16'' ''PVTI_1'' =
     (Inr False,
      say Stderr Warn
        (FailedToClearIteration (GitHubAPIError ''API call failed: HTTP 502''))
        (clear_down\<lparr>calls := [(ListFields ''PVT_16'', True),
            (ClearIteration ''PVT_16'' ''PVTI_1'' (JString ''F_1''), False)]\<rparr>))"
proof -
  have a: "outage (board [[]]) (length (calls (board [[]]))) (ListFields ''PVT_16'') = None \<and>
           filter sprint_named (take 20 (field_nodes (board [[]]) ''PVT_16'')) = []"
    by (simp add: board_def quiet_def sprint_named_def)
  have b: "outage clear_down (length (calls clear_down)) (ListFields ''PVT_16'') = None \<and>
           filter sprint_named (take 20 (field_nodes clear_down ''PVT_16'')) = [sprint_field] \<and>
           map_of sprint_field ''id'' = Some (JString ''F_1'') \<and>
           outage clear_down (Suc (length (calls clear_down)))
             (ClearIteration ''PVT_16'' ''PVTI_1'' (JString ''F_1'')) = Some ''HTTP 502''"
    by (simp add: clear_down_def board_def quiet_def sprint_named_def sprint_field_def)
  have c: "calls clear_down = []"
    by (simp add: clear_down_def board_def quiet_def)
  from a b c show ?thesis
    using clear_iteration_returns_boolean
            [of "board [[]]" "''PVT_16''" "''PVTI_1''" sprint_field "JString ''F_1''" "''x''"]
          clear_iteration_returns_boolean
            [of clear_down "''PVT_16''" "''PVTI_1''" sprint_field "JString ''F_1''"
                "''HTTP 502''"]
    by simp
qed









subsection \<open>Looking a project up\<close>





subsection \<open>An issue with no build label\<close>

lemma no_build_label_lines: "filter (\<lambda>l. l \<noteq> []) (py_split nl (py_strip (unlines []))) = []"
  by (simp add: unlines_def py_strip_def)

lemma get_issue_id_up:
  "outage w (length (calls w)) (GetNodeId repo num) = None \<Longrightarrow>
   get_issue_id w repo num =
     (Inr (py_strip (unlines [node_id (issues w repo num)])),
      w\<lparr>calls := calls w @ [(GetNodeId repo num, True)]\<rparr>)"
  by (simp add: get_issue_id_def run_gh_api_def stripped_def)

lemma get_labels_none:
  "outage w (length (calls w)) (GetLabels repo num ''B'') = None \<Longrightarrow>
   filter (starts_with ''B'') (label_names (issues w repo num)) = [] \<Longrightarrow>
   get_labels_by_prefix w repo num ''B'' =
     (Inr [], w\<lparr>calls := calls w @ [(GetLabels repo num ''B'', True)]\<rparr>)"
  by (simp add: get_labels_by_prefix_def run_gh_api_def stripped_def jq_filter_def
      jq_plain_def no_build_label_lines)

text \<open>
  C6. For an issue none of whose labels starts with \<^verbatim>\<open>B\<close>, when the two reads go through,
  \<open>process_sprint_for_build_labels\<close> with action \<^verbatim>\<open>remove\<close> returns 0. It has made the two
  reads and no mutation, it has changed neither the items nor the iteration values, and
  the three lines it has printed are not warnings.
\<close>

theorem sync_remove_no_build_labels:
  assumes "outage w (length (calls w)) (GetNodeId repo num) = None"
    and "outage w (Suc (length (calls w))) (GetLabels repo num ''B'') = None"
    and "filter (starts_with ''B'') (label_names (issues w repo num)) = []"
    and "process_sprint_for_build_labels w repo num org ''remove'' = (r, w')"
  shows "r = Inr 0 \<and>
         calls w' = calls w @ [(GetNodeId repo num, True), (GetLabels repo num ''B'', True)] \<and>
         mutations w' = mutations w \<and>
         items w' = items w \<and> sprint w' = sprint w \<and>
         console w' = console w @
           [(Stdout, Plain, SprintForIssue ''Removing from'' num),
            (Stdout, Plain, IssueNodeId (py_strip (unlines [node_id (issues w repo num)]))),
            (Stdout, Note, NoBuildLabelsNothingToClear)]"
proof -
  let ?w0 = "say Stdout Plain (SprintForIssue ''Removing from'' num) w"
  let ?w1 = "?w0\<lparr>calls := calls w @ [(GetNodeId repo num, True)]\<rparr>"
  let ?w2 = "say Stdout Plain (IssueNodeId (py_strip (unlines [node_id (issues w repo num)]))) ?w1"
  have 1: "get_issue_id ?w0 repo num =
             (Inr (py_strip (unlines [node_id (issues w repo num)])), ?w1)"
    using assms(1) get_issue_id_up [of ?w0 repo num] by (simp add: say_simps)
  have 2: "get_labels_by_prefix ?w2 repo num ''B'' =
             (Inr [], ?w2\<lparr>calls := calls w @
                [(GetNodeId repo num, True), (GetLabels repo num ''B'', True)]\<rparr>)"
    using assms(2,3) get_labels_none [of ?w2 repo num] by (simp add: say_simps)
  show ?thesis
    using assms(4)
    by (auto simp: process_sprint_for_build_labels_def sprint_try_def 1 2 say_simps
        mutations_def)
qed

theorem sync_remove_no_build_labels_witness:
  "fst (process_sprint_for_build_labels unlabelled ''NASA-PDS/repo'' 7 ''NASA-PDS'' ''remove'')
     = Inr 0 \<and>
   mutations
     (snd (process_sprint_for_build_labels unlabelled ''NASA-PDS/repo'' 7 ''NASA-PDS'' ''remove''))
     = [] \<and>
   console
     (snd (process_sprint_for_build_labels unlabelled ''NASA-PDS/repo'' 7 ''NASA-PDS'' ''remove''))
     = [(Stdout, Plain, SprintForIssue ''Removing from'' 7),
        (Stdout, Plain, IssueNodeId ''I_7''),
        (Stdout, Note, NoBuildLabelsNothingToClear)]"
proof -
  have a: "outage unlabelled (length (calls unlabelled)) (GetNodeId ''NASA-PDS/repo'' 7) = None"
    "outage unlabelled (Suc (length (calls unlabelled)))
       (GetLabels ''NASA-PDS/repo'' 7 ''B'') = None"
    "filter (starts_with ''B'') (label_names (issues unlabelled ''NASA-PDS/repo'' 7)) = []"
    by (simp_all add: unlabelled_def board_def quiet_def starts_with_def)
  have b: "mutations unlabelled = []" "console unlabelled = []"
    "py_strip (unlines [node_id (issues unlabelled ''NASA-PDS/repo'' 7)]) = ''I_7''"
    by (simp_all add: unlabelled_def board_def quiet_def mutations_def py_strip_def
        unlines_def py_space_def nl_def)
  show ?thesis
    using b sync_remove_no_build_labels [OF a,
        of "''NASA-PDS''"
          "fst (process_sprint_for_build_labels unlabelled ''NASA-PDS/repo'' 7 ''NASA-PDS''
                  ''remove'')"
          "snd (process_sprint_for_build_labels unlabelled ''NASA-PDS/repo'' 7 ''NASA-PDS''
                  ''remove'')"]
    by simp
qed

subsection \<open>Counting the set-iteration calls that went through\<close>


















subsection \<open>The labels \<^verbatim>\<open>B16\<close> and \<^verbatim>\<open>B17\<close>, of which only \<^verbatim>\<open>B16\<close> is a project\<close>







subsection \<open>The exit status\<close>

lemma main_build_project:
  assumes "a_action a = ''add-to-build-project''"
    and "a_label a = Some lbl" and "lbl \<noteq> []"
    and "add_issue_to_build_project w (a_repository a) (a_issue_number a) (a_org a) lbl
           = (Inr b, w')"
  shows "main w a = ((if b then 0 else 1), w')"
  using assms by (simp add: main_def main_run_def)

lemma main_sprint_counted:
  assumes "a_action a = ''add-to-sprint'' \<or> a_action a = ''remove-from-sprint''"
    and "process_sprint_for_build_labels w (a_repository a) (a_issue_number a) (a_org a)
           (if a_action a = ''add-to-sprint'' then ''add'' else ''remove'') = (Inr k, w')"
    and "k \<noteq> 0"
  shows "main w a = (0, w')"
  using assms by (auto simp: main_def main_run_def)

lemma main_sprint_none:
  assumes "a_action a = ''add-to-sprint'' \<or> a_action a = ''remove-from-sprint''"
    and "process_sprint_for_build_labels w (a_repository a) (a_issue_number a) (a_org a)
           (if a_action a = ''add-to-sprint'' then ''add'' else ''remove'') = (Inr 0, w')"
    and "get_labels_by_prefix w' (a_repository a) (a_issue_number a) ''B'' = (Inr ls, w'')"
  shows "main w a = ((if ls = [] then 0 else 1), w'')"
  using assms by (auto simp: main_def main_run_def)

lemma process_sprint_add_no_labels:
  assumes "outage w (length (calls w)) (GetNodeId repo num) = None"
    and "outage w (Suc (length (calls w))) (GetLabels repo num ''B'') = None"
    and "filter (starts_with ''B'') (label_names (issues w repo num)) = []"
  shows "process_sprint_for_build_labels w repo num org ''add'' =
           (Inr 0,
            say Stdout Note PleaseAddBuildLabel
              (say Stdout Warn NoBuildLabel
                (say Stdout Plain (IssueNodeId (py_strip (unlines [node_id (issues w repo num)])))
                   (say Stdout Plain (SprintForIssue ''Adding to'' num) w)
                 \<lparr>calls := calls w @
                     [(GetNodeId repo num, True), (GetLabels repo num ''B'', True)]\<rparr>)))"
proof -
  let ?w0 = "say Stdout Plain (SprintForIssue ''Adding to'' num) w"
  let ?w1 = "?w0\<lparr>calls := calls w @ [(GetNodeId repo num, True)]\<rparr>"
  let ?w2 = "say Stdout Plain (IssueNodeId (py_strip (unlines [node_id (issues w repo num)]))) ?w1"
  have 1: "get_issue_id ?w0 repo num =
             (Inr (py_strip (unlines [node_id (issues w repo num)])), ?w1)"
    using assms(1) get_issue_id_up [of ?w0 repo num] by (simp add: say_simps)
  have 2: "get_labels_by_prefix ?w2 repo num ''B'' =
             (Inr [], ?w2\<lparr>calls := calls w @
                [(GetNodeId repo num, True), (GetLabels repo num ''B'', True)]\<rparr>)"
    using assms(2,3) get_labels_none [of ?w2 repo num] by (simp add: say_simps)
  show ?thesis
    by (simp add: process_sprint_for_build_labels_def sprint_try_def 1 2)
       (simp add: say_def)
qed

lemma main_add_no_labels:
  assumes "a_action a = ''add-to-sprint''"
    and "outage w (length (calls w)) (GetNodeId (a_repository a) (a_issue_number a)) = None"
    and "outage w (Suc (length (calls w)))
           (GetLabels (a_repository a) (a_issue_number a) ''B'') = None"
    and "outage w (Suc (Suc (length (calls w))))
           (GetLabels (a_repository a) (a_issue_number a) ''B'') = None"
    and "filter (starts_with ''B'')
           (label_names (issues w (a_repository a) (a_issue_number a))) = []"
  shows "fst (process_sprint_for_build_labels w (a_repository a) (a_issue_number a) (a_org a)
                ''add'') = Inr 0 \<and>
         fst (main w a) = 0"
proof -
  obtain w' where p: "process_sprint_for_build_labels w (a_repository a) (a_issue_number a)
                        (a_org a) ''add'' = (Inr 0, w')"
    and c: "calls w' = calls w @ [(GetNodeId (a_repository a) (a_issue_number a), True),
                                   (GetLabels (a_repository a) (a_issue_number a) ''B'', True)]"
    and o: "outage w' = outage w" and i: "issues w' = issues w"
    using process_sprint_add_no_labels [OF assms(2,3,5), of "a_org a"]
    by (simp add: say_simps)
  have "get_labels_by_prefix w' (a_repository a) (a_issue_number a) ''B'' =
          (Inr [], w'\<lparr>calls := calls w' @
             [(GetLabels (a_repository a) (a_issue_number a) ''B'', True)]\<rparr>)"
    using assms(4,5) c o i by (intro get_labels_none) simp_all
  with p assms(1) show ?thesis
    by (simp add: main_def main_run_def)
qed

text \<open>
  C7, the counterexample. On an issue without a build label, with every call going
  through, \<^verbatim>\<open>add-to-sprint\<close> makes \<open>process_sprint_for_build_labels\<close> warn and return 0,
  and the process exits with status 0, not 1.
\<close>

theorem exit_status_no_build_labels_counterexample:
  "fst (process_sprint_for_build_labels unlabelled ''NASA-PDS/repo'' 7 ''NASA-PDS'' ''add'')
     = Inr 0 \<and>
   warnings (snd (process_sprint_for_build_labels unlabelled ''NASA-PDS/repo'' 7 ''NASA-PDS''
                    ''add'')) = [NoBuildLabel] \<and>
   fst (main unlabelled (cli ''add-to-sprint'' None)) = 0 \<and>
   fst (main unlabelled (cli ''add-to-sprint'' None)) \<noteq> 1"
  by code_simp

text \<open>
  C7, amended. The exit status is 0 on success and 1 on failure, where:
  for \<^verbatim>\<open>add-to-build-project\<close> the status is 0 when \<open>add_issue_to_build_project\<close> returns
  \<open>True\<close> and 1 when it returns \<open>False\<close>; for the two sprint actions a count other than 0
  gives status 0, and a count of 0 gives status 1 only if the issue has build labels when
  \<open>main\<close> reads them again, status 0 if it has none. In particular \<^verbatim>\<open>add-to-sprint\<close> on an
  issue without a build label, with the reads going through, returns 0 and exits with
  status 0.
\<close>

theorem main_exit_status:
  "(a_action a = ''add-to-build-project'' \<and> a_label a = Some lbl \<and> lbl \<noteq> [] \<and>
    add_issue_to_build_project w (a_repository a) (a_issue_number a) (a_org a) lbl
      = (Inr b, w') \<longrightarrow>
      main w a = ((if b then 0 else 1), w')) \<and>
   ((a_action a = ''add-to-sprint'' \<or> a_action a = ''remove-from-sprint'') \<and>
    process_sprint_for_build_labels w (a_repository a) (a_issue_number a) (a_org a)
      (if a_action a = ''add-to-sprint'' then ''add'' else ''remove'') = (Inr k, w') \<and>
    k \<noteq> 0 \<longrightarrow>
      main w a = (0, w')) \<and>
   ((a_action a = ''add-to-sprint'' \<or> a_action a = ''remove-from-sprint'') \<and>
    process_sprint_for_build_labels w (a_repository a) (a_issue_number a) (a_org a)
      (if a_action a = ''add-to-sprint'' then ''add'' else ''remove'') = (Inr 0, w') \<and>
    get_labels_by_prefix w' (a_repository a) (a_issue_number a) ''B'' = (Inr ls, w'') \<longrightarrow>
      main w a = ((if ls = [] then 0 else 1), w'')) \<and>
   (a_action a = ''add-to-sprint'' \<and>
    outage w (length (calls w)) (GetNodeId (a_repository a) (a_issue_number a)) = None \<and>
    outage w (Suc (length (calls w)))
      (GetLabels (a_repository a) (a_issue_number a) ''B'') = None \<and>
    outage w (Suc (Suc (length (calls w))))
      (GetLabels (a_repository a) (a_issue_number a) ''B'') = None \<and>
    filter (starts_with ''B'')
      (label_names (issues w (a_repository a) (a_issue_number a))) = [] \<longrightarrow>
      fst (process_sprint_for_build_labels w (a_repository a) (a_issue_number a) (a_org a)
             ''add'') = Inr 0 \<and>
      fst (main w a) = 0)"
  using main_build_project main_sprint_counted main_sprint_none main_add_no_labels
  by blast

theorem main_exit_status_witness:
  "fst (add_issue_to_build_project (board []) ''NASA-PDS/repo'' 7 ''NASA-PDS'' ''B17'')
     = Inr False \<and>
   fst (main (board []) (cli ''add-to-build-project'' (Some ''B17''))) = 1 \<and>
   fst (add_issue_to_build_project (board []) ''NASA-PDS/repo'' 7 ''NASA-PDS'' ''B16'')
     = Inr True \<and>
   fst (main (board []) (cli ''add-to-build-project'' (Some ''B16''))) = 0 \<and>
   fst (process_sprint_for_build_labels (board [[], sprint_field])
          ''NASA-PDS/repo'' 7 ''NASA-PDS'' ''add'') = Inr 1 \<and>
   fst (main (board [[], sprint_field]) (cli ''add-to-sprint'' None)) = 0 \<and>
   fst (process_sprint_for_build_labels (board [[]]) ''NASA-PDS/repo'' 7 ''NASA-PDS'' ''add'')
     = Inr 0 \<and>
   fst (main (board [[]]) (cli ''add-to-sprint'' None)) = 1 \<and>
   fst (process_sprint_for_build_labels unlabelled ''NASA-PDS/repo'' 7 ''NASA-PDS'' ''add'')
     = Inr 0 \<and>
   fst (main unlabelled (cli ''add-to-sprint'' None)) = 0"
proof -
  let ?b17 = "add_issue_to_build_project (board []) ''NASA-PDS/repo'' 7 ''NASA-PDS'' ''B17''"
  let ?b16 = "add_issue_to_build_project (board []) ''NASA-PDS/repo'' 7 ''NASA-PDS'' ''B16''"
  let ?one = "process_sprint_for_build_labels (board [[], sprint_field])
                ''NASA-PDS/repo'' 7 ''NASA-PDS'' ''add''"
  let ?none = "process_sprint_for_build_labels (board [[]])
                ''NASA-PDS/repo'' 7 ''NASA-PDS'' ''add''"
  let ?again = "get_labels_by_prefix (snd ?none) ''NASA-PDS/repo'' 7 ''B''"
  have sel [simp]: "a_action (cli x y) = x" "a_label (cli x y) = y"
    "a_repository (cli x y) = ''NASA-PDS/repo''" "a_issue_number (cli x y) = 7"
    "a_org (cli x y) = ''NASA-PDS''" for x y
    by (simp_all add: cli_def)
  have b17: "fst ?b17 = Inr False" by code_simp
  then have b17': "?b17 = (Inr False, snd ?b17)" by (simp add: prod_eq_iff)
  have b16: "fst ?b16 = Inr True" by code_simp
  then have b16': "?b16 = (Inr True, snd ?b16)" by (simp add: prod_eq_iff)
  have one: "fst ?one = Inr 1" by code_simp
  then have one': "?one = (Inr 1, snd ?one)" by (simp add: prod_eq_iff)
  have none: "fst ?none = Inr 0" by code_simp
  then have none': "?none = (Inr 0, snd ?none)" by (simp add: prod_eq_iff)
  have again: "fst ?again = Inr [''B16'', ''B17'']" by code_simp
  then have again': "?again = (Inr [''B16'', ''B17''], snd ?again)" by (simp add: prod_eq_iff)
  have up: "outage unlabelled n c = None" "calls unlabelled = []"
    "filter (starts_with ''B'') (label_names (issues unlabelled ''NASA-PDS/repo'' 7)) = []"
    for n c
    by (simp_all add: unlabelled_def board_def quiet_def starts_with_def)
  have 1: "main (board []) (cli ''add-to-build-project'' (Some ''B17'')) = (1, snd ?b17)"
    using b17' main_exit_status
      [where a = "cli ''add-to-build-project'' (Some ''B17'')" and lbl = "''B17''"
         and w = "board []" and b = False and w' = "snd ?b17"]
    by simp
  have 2: "main (board []) (cli ''add-to-build-project'' (Some ''B16'')) = (0, snd ?b16)"
    using b16' main_exit_status
      [where a = "cli ''add-to-build-project'' (Some ''B16'')" and lbl = "''B16''"
         and w = "board []" and b = True and w' = "snd ?b16"]
    by simp
  have 3: "main (board [[], sprint_field]) (cli ''add-to-sprint'' None) = (0, snd ?one)"
    using one' main_exit_status
      [where a = "cli ''add-to-sprint'' None" and w = "board [[], sprint_field]"
         and k = 1 and w' = "snd ?one"]
    by simp
  have 4: "main (board [[]]) (cli ''add-to-sprint'' None) = (1, snd ?again)"
    using none' again' main_exit_status
      [where a = "cli ''add-to-sprint'' None" and w = "board [[]]"
         and w' = "snd ?none" and ls = "[''B16'', ''B17'']" and w'' = "snd ?again"]
    by simp
  have 5: "fst (process_sprint_for_build_labels unlabelled ''NASA-PDS/repo'' 7 ''NASA-PDS''
                  ''add'') = Inr 0 \<and>
           fst (main unlabelled (cli ''add-to-sprint'' None)) = 0"
    using up main_exit_status [where a = "cli ''add-to-sprint'' None" and w = unlabelled]
    by simp
  from b17 b16 one none 1 2 3 4 5 show ?thesis
    by simp
qed

subsection \<open>Membership\<close>

lemma held_plain: "held (\<lambda>c. c = i) = holds i"
  by (auto simp: held_def holds_def fun_eq_iff split: option.splits)

lemma is_issue_in_project_up:
  assumes "outage w (length (calls w)) (ListItems p i) = None" and "jq_plain i"
  shows "is_issue_in_project w p i =
           (Inr (if scan w p i \<noteq> [] then Some (scan w p i) else None),
            w\<lparr>calls := calls w @ [(ListItems p i, True)]\<rparr>)"
  using assms
  by (simp add: is_issue_in_project_def run_gh_api_def stripped_def jq_filter_def scan_def
      held_plain)

lemma add_issue_to_project_up:
  assumes "outage w (length (calls w)) (AddItem p i) = None"
  shows "add_issue_to_project w p i =
           (Inr (holder (served (AddItem p i) w) p i),
            (served (AddItem p i) w)\<lparr>calls := calls w @ [(AddItem p i, True)]\<rparr>)"
  using assms
  by (simp add: add_issue_to_project_def run_gh_api_def stripped_def holder_def
      del: served.simps)

lemma scan_calls [simp]: "scan (w\<lparr>calls := c\<rparr>) p i = scan w p i"
  by (simp add: scan_def)

lemma holder_calls [simp]: "holder (w\<lparr>calls := c\<rparr>) p i = holder w p i"
  by (simp add: holder_def)

lemma filter_take_empty: "filter P xs = [] \<Longrightarrow> filter P (take n xs) = []"
  by (auto simp: filter_empty_conv dest: in_set_takeD)

lemma served_add_present:
  "filter (holds i) (items w p) \<noteq> [] \<Longrightarrow> served (AddItem p i) w = w"
  by simp

lemma served_add_holds:
  "filter (holds i) (items (served (AddItem p i) w) p) \<noteq> []"
  by (simp add: holds_def)

lemma served_add_items:
  "items (served (AddItem p i) w) = items w \<or>
   (filter (holds i) (items w p) = [] \<and>
    items (served (AddItem p i) w) =
      (items w)(p := items w p @ [\<lparr>item_id = mint w (length (calls w)), content = Some i\<rparr>]))"
  by simp

lemma scan_after_add:
  assumes "filter (holds i) (items w p) = []"
  shows "scan (served (AddItem p i) w) p i =
           (if length (items w p) < 100 then holder (served (AddItem p i) w) p i else [])"
  using assms
  by (simp add: scan_def holder_def holds_def filter_take_empty unlines_def py_strip_def)

lemma scan_empty_no_holder_seen:
  "filter (holds i) (items w p) = [] \<Longrightarrow> scan w p i = []"
  by (simp add: scan_def filter_take_empty unlines_def py_strip_def)

lemma is_issue_in_project_some:
  "is_issue_in_project w p i = (Inr (Some x), w') \<Longrightarrow> x \<noteq> []"
  by (auto simp: is_issue_in_project_def split: prod.splits sum.splits if_splits)

lemma ensure_found:
  "is_issue_in_project w p i = (Inr (Some x), w') \<Longrightarrow>
   ensure_issue_in_project w p i = (Inr x, w')"
  by (frule is_issue_in_project_some) (simp add: ensure_issue_in_project_def)

lemma ensure_not_found:
  "is_issue_in_project w p i = (Inr None, w') \<Longrightarrow>
   ensure_issue_in_project w p i = add_issue_to_project w' p i"
  by (simp add: ensure_issue_in_project_def)

lemma ensure_up:
  assumes "\<forall>n c. outage w n c = None" and "jq_plain i"
  shows "ensure_issue_in_project w p i =
           (if scan w p i \<noteq> [] then
              (Inr (scan w p i), w\<lparr>calls := calls w @ [(ListItems p i, True)]\<rparr>)
            else
              (Inr (holder (served (AddItem p i)
                      (w\<lparr>calls := calls w @ [(ListItems p i, True)]\<rparr>)) p i),
               (served (AddItem p i) (w\<lparr>calls := calls w @ [(ListItems p i, True)]\<rparr>))
               \<lparr>calls := calls w @ [(ListItems p i, True), (AddItem p i, True)]\<rparr>))"
proof -
  let ?wl = "w\<lparr>calls := calls w @ [(ListItems p i, True)]\<rparr>"
  have find: "is_issue_in_project w p i =
                (Inr (if scan w p i \<noteq> [] then Some (scan w p i) else None), ?wl)"
    using assms by (intro is_issue_in_project_up) simp_all
  have add: "add_issue_to_project ?wl p i =
               (Inr (holder (served (AddItem p i) ?wl) p i),
                (served (AddItem p i) ?wl)\<lparr>calls := calls ?wl @ [(AddItem p i, True)]\<rparr>)"
    using assms(1) by (intro add_issue_to_project_up) simp
  show ?thesis
  proof (cases "scan w p i \<noteq> []")
    case True
    with find show ?thesis
      by (simp add: ensure_issue_in_project_def)
  next
    case False
    with find add show ?thesis
      by (simp add: ensure_issue_in_project_def del: served.simps)
  qed
qed

lemma ensure_twice:
  assumes up: "\<forall>n c. outage w n c = None" and plain: "jq_plain i"
    and first: "ensure_issue_in_project w p i = (r1, w1)"
    and second: "ensure_issue_in_project w1 p i = (r2, w2)"
  shows "(\<exists>x. r1 = Inr x \<and> r2 = Inr x) \<and> items w2 = items w1 \<and>
         (items w1 = items w \<or>
          (filter (holds i) (items w p) = [] \<and>
           items w1 = (items w)(p := items w p @
              [\<lparr>item_id = mint w (Suc (length (calls w))), content = Some i\<rparr>])))"
proof (cases "scan w p i \<noteq> []")
  case True
  let ?wl = "w\<lparr>calls := calls w @ [(ListItems p i, True)]\<rparr>"
  from True first have 1: "r1 = Inr (scan w p i)" "w1 = ?wl"
    using ensure_up [OF up plain, of p] by simp_all
  have up1: "\<forall>n c. outage w1 n c = None"
    using up 1 by simp
  have "scan w1 p i = scan w p i"
    using 1 by simp
  with True second have "r2 = Inr (scan w p i)" "items w2 = items w1"
    using ensure_up [OF up1 plain, of p] by auto
  with 1 show ?thesis
    by simp
next
  case False
  let ?wl = "w\<lparr>calls := calls w @ [(ListItems p i, True)]\<rparr>"
  let ?wa = "served (AddItem p i) ?wl"
  from False first have 1: "r1 = Inr (holder ?wa p i)"
    "w1 = ?wa\<lparr>calls := calls w @ [(ListItems p i, True), (AddItem p i, True)]\<rparr>"
    using ensure_up [OF up plain, of p] by (simp_all del: served.simps)
  have up1: "\<forall>n c. outage w1 n c = None"
    using up 1 by (simp add: served_outage del: served.simps)
  have items1: "items w1 = items ?wa"
    using 1 by (simp del: served.simps)
  have there: "filter (holds i) (items w1 p) \<noteq> []"
    using items1 served_add_holds [of i p ?wl] by simp
  have same: "holder w1 p i = holder ?wa p i" "scan w1 p i = scan ?wa p i"
    using 1 by (simp_all del: served.simps)
  have seen: "scan w1 p i \<noteq> [] \<Longrightarrow> scan w1 p i = holder ?wa p i"
  proof (cases "filter (holds i) (items w p) = []")
    case True
    then have "filter (holds i) (items ?wl p) = []"
      by simp
    from scan_after_add [OF this] same show "scan w1 p i \<noteq> [] \<Longrightarrow> ?thesis"
      by (simp del: served.simps split: if_splits)
  next
    case present: False
    then have "?wa = ?wl"
      by simp
    with same False show "scan w1 p i \<noteq> [] \<Longrightarrow> ?thesis"
      by simp
  qed
  have r2: "r2 = Inr (holder ?wa p i) \<and> items w2 = items w1"
  proof (cases "scan w1 p i \<noteq> []")
    case True
    with second seen show ?thesis
      using ensure_up [OF up1 plain, of p] by (auto simp del: served.simps)
  next
    case again: False
    let ?w1l = "w1\<lparr>calls := calls w1 @ [(ListItems p i, True)]\<rparr>"
    have "served (AddItem p i) ?w1l = ?w1l"
      using there by simp
    with again second same show ?thesis
      using ensure_up [OF up1 plain, of p] by (auto simp del: served.simps)
  qed
  have grown: "items w1 = items w \<or>
          (filter (holds i) (items w p) = [] \<and>
           items w1 = (items w)(p := items w p @
              [\<lparr>item_id = mint w (Suc (length (calls w))), content = Some i\<rparr>]))"
    using items1 served_add_items [of p i ?wl] by simp
  from 1 r2 grown show ?thesis
    by simp
qed

lemma py_strip_empty: "py_strip s = [] \<longleftrightarrow> (\<forall>c\<in>set s. py_space c)"
proof -
  have "py_strip s = [] \<longleftrightarrow> (\<forall>c\<in>set (dropWhile py_space s). py_space c)"
    by (simp add: py_strip_def)
  also have "\<dots> \<longleftrightarrow> dropWhile py_space s = []"
    by (metis dropWhile_eq_Nil_conv dropWhile_idem)
  also have "\<dots> \<longleftrightarrow> (\<forall>c\<in>set s. py_space c)"
    by simp
  finally show ?thesis .
qed

lemma scan_blank_holder_blank:
  assumes "length (items w p) < 100" and "scan w p i = []"
  shows "holder w p i = []"
proof -
  have "set (take 1 (filter (holds i) (items w p))) \<subseteq> set (filter (holds i) (items w p))"
    by (rule set_take_subset)
  then have "set (unlines (map item_id (take 1 (filter (holds i) (items w p)))))
          \<subseteq> set (unlines (map item_id (filter (holds i) (items w p))))"
    by (auto simp: unlines_def)
  with assms show ?thesis
    by (auto simp: scan_def holder_def py_strip_empty)
qed

lemma ensure_second_no_add:
  assumes up: "\<forall>n c. outage w n c = None" and plain: "jq_plain i"
    and first: "ensure_issue_in_project w p i = (Inr y, w1)" and y: "y \<noteq> []"
    and small: "length (items w p) < 100"
    and second: "ensure_issue_in_project w1 p i = (r2, w2)"
  shows "mutations w2 = mutations w1"
proof -
  let ?wl = "w\<lparr>calls := calls w @ [(ListItems p i, True)]\<rparr>"
  let ?wa = "served (AddItem p i) ?wl"
  have seen: "scan w1 p i \<noteq> []" and up1: "\<forall>n c. outage w1 n c = None"
  proof -
    show "scan w1 p i \<noteq> []"
    proof (cases "scan w p i \<noteq> []")
      case True
      with first show ?thesis
        using ensure_up [OF up plain, of p] by auto
    next
      case False
      with first have 1: "y = holder ?wa p i"
        "w1 = ?wa\<lparr>calls := calls w @ [(ListItems p i, True), (AddItem p i, True)]\<rparr>"
        using ensure_up [OF up plain, of p] by (simp_all del: served.simps)
      show ?thesis
      proof (cases "filter (holds i) (items w p) = []")
        case True
        then have "filter (holds i) (items ?wl p) = []"
          by simp
        from scan_after_add [OF this] small 1 y show ?thesis
          by (simp del: served.simps)
      next
        case present: False
        then have "?wa = ?wl"
          by simp
        with 1 have "y = holder w p i"
          by simp
        with y scan_blank_holder_blank [OF small] False show ?thesis
          by auto
      qed
    qed
    show "\<forall>n c. outage w1 n c = None"
    proof (cases "scan w p i \<noteq> []")
      case True
      with first up show ?thesis
        using ensure_up [OF up plain, of p] by auto
    next
      case False
      with first up show ?thesis
        using ensure_up [OF up plain, of p] by (auto simp: served_outage simp del: served.simps)
    qed
  qed
  with second show ?thesis
    using ensure_up [OF up1 plain, of p] by (auto simp: mutations_def)
qed

text \<open>
  C2. \<open>ensure_issue_in_project\<close> returns the identifier that \<open>is_issue_in_project\<close> finds,
  and calls \<open>add_issue_to_project\<close> only when it finds none. When every call goes through,
  for an issue identifier without a double quote or backslash, two calls in succession
  return the same identifier, the second creates nothing, and the first creates at most
  one item, for this issue, in a project that did not hold it. (Where the second call's
  query does not reach the item, in a project of a hundred items or more, it calls the add
  mutation again, and GitHub answers with the item that is there.) In a project of fewer
  than a hundred items, the second call attempts no mutation at all.
\<close>

theorem ensure_membership_idempotent:
  "(is_issue_in_project w p i = (Inr (Some x), v) \<longrightarrow>
      ensure_issue_in_project w p i = (Inr x, v)) \<and>
   (is_issue_in_project w p i = (Inr None, v) \<longrightarrow>
      ensure_issue_in_project w p i = add_issue_to_project v p i) \<and>
   ((\<forall>n c. outage w n c = None) \<and> jq_plain i \<and>
    ensure_issue_in_project w p i = (r1, w1) \<and>
    ensure_issue_in_project w1 p i = (r2, w2) \<longrightarrow>
      (\<exists>y. r1 = Inr y \<and> r2 = Inr y) \<and> items w2 = items w1 \<and>
      (items w1 = items w \<or>
       (filter (holds i) (items w p) = [] \<and>
        items w1 = (items w)(p := items w p @
           [\<lparr>item_id = mint w (Suc (length (calls w))), content = Some i\<rparr>])))) \<and>
   ((\<forall>n c. outage w n c = None) \<and> jq_plain i \<and>
    ensure_issue_in_project w p i = (Inr z, w1) \<and> z \<noteq> [] \<and>
    length (items w p) < 100 \<and>
    ensure_issue_in_project w1 p i = (r2, w2) \<longrightarrow>
      mutations w2 = mutations w1)"
proof (intro conjI impI)
  assume "is_issue_in_project w p i = (Inr (Some x), v)"
  then show "ensure_issue_in_project w p i = (Inr x, v)"
    by (rule ensure_found)
next
  assume "is_issue_in_project w p i = (Inr None, v)"
  then show "ensure_issue_in_project w p i = add_issue_to_project v p i"
    by (rule ensure_not_found)
next
  assume a: "(\<forall>n c. outage w n c = None) \<and> jq_plain i \<and>
    ensure_issue_in_project w p i = (r1, w1) \<and>
    ensure_issue_in_project w1 p i = (r2, w2)"
  then have t: "(\<exists>y. r1 = Inr y \<and> r2 = Inr y) \<and> items w2 = items w1 \<and>
      (items w1 = items w \<or>
       (filter (holds i) (items w p) = [] \<and>
        items w1 = (items w)(p := items w p @
           [\<lparr>item_id = mint w (Suc (length (calls w))), content = Some i\<rparr>])))"
    using ensure_twice [of w i p r1 w1 r2 w2] by blast
  from t show "\<exists>y. r1 = Inr y \<and> r2 = Inr y" by blast
  from t show "items w2 = items w1" by blast
  from t show "items w1 = items w \<or>
       (filter (holds i) (items w p) = [] \<and>
        items w1 = (items w)(p := items w p @
           [\<lparr>item_id = mint w (Suc (length (calls w))), content = Some i\<rparr>]))"
    by blast
next
  assume "(\<forall>n c. outage w n c = None) \<and> jq_plain i \<and>
    ensure_issue_in_project w p i = (Inr z, w1) \<and> z \<noteq> [] \<and>
    length (items w p) < 100 \<and>
    ensure_issue_in_project w1 p i = (r2, w2)"
  then show "mutations w2 = mutations w1"
    using ensure_second_no_add [of w i p z w1 r2 w2] by blast
qed

theorem ensure_membership_idempotent_witness:
  "fst (is_issue_in_project (board []) ''PVT_16'' ''I_7'') = Inr None \<and>
   ensure_issue_in_project (board []) ''PVT_16'' ''I_7'' =
     add_issue_to_project (snd (is_issue_in_project (board []) ''PVT_16'' ''I_7''))
       ''PVT_16'' ''I_7'' \<and>
   fst (ensure_issue_in_project (board []) ''PVT_16'' ''I_7'') = Inr ''PVTI_i'' \<and>
   fst (is_issue_in_project (snd (ensure_issue_in_project (board []) ''PVT_16'' ''I_7''))
          ''PVT_16'' ''I_7'') = Inr (Some ''PVTI_i'') \<and>
   fst (ensure_issue_in_project (snd (ensure_issue_in_project (board []) ''PVT_16'' ''I_7''))
          ''PVT_16'' ''I_7'') = Inr ''PVTI_i'' \<and>
   items (snd (ensure_issue_in_project
                 (snd (ensure_issue_in_project (board []) ''PVT_16'' ''I_7''))
                 ''PVT_16'' ''I_7'')) ''PVT_16''
     = [\<lparr>item_id = ''PVTI_i'', content = Some ''I_7''\<rparr>] \<and>
   mutations (snd (ensure_issue_in_project
                     (snd (ensure_issue_in_project (board []) ''PVT_16'' ''I_7''))
                     ''PVT_16'' ''I_7''))
     = mutations (snd (ensure_issue_in_project (board []) ''PVT_16'' ''I_7'')) \<and>
   fst (ensure_issue_in_project full_project ''PVT_16'' ''I_7'') = Inr ''PVTI_i'' \<and>
   fst (ensure_issue_in_project (snd (ensure_issue_in_project full_project ''PVT_16'' ''I_7''))
          ''PVT_16'' ''I_7'') = Inr ''PVTI_i'' \<and>
   items (snd (ensure_issue_in_project
                 (snd (ensure_issue_in_project full_project ''PVT_16'' ''I_7''))
                 ''PVT_16'' ''I_7''))
     = items (snd (ensure_issue_in_project full_project ''PVT_16'' ''I_7''))"
proof -
  let ?f = "is_issue_in_project (board []) ''PVT_16'' ''I_7''"
  let ?e1 = "ensure_issue_in_project (board []) ''PVT_16'' ''I_7''"
  let ?f1 = "is_issue_in_project (snd ?e1) ''PVT_16'' ''I_7''"
  let ?e2 = "ensure_issue_in_project (snd ?e1) ''PVT_16'' ''I_7''"
  let ?g1 = "ensure_issue_in_project full_project ''PVT_16'' ''I_7''"
  let ?g2 = "ensure_issue_in_project (snd ?g1) ''PVT_16'' ''I_7''"
  have up: "\<forall>n c. outage (board []) n c = None" "\<forall>n c. outage full_project n c = None"
    by (simp_all add: full_project_def board_def quiet_def)
  have plain: "jq_plain ''I_7''"
    by (simp add: jq_plain_def)
  have f: "fst ?f = Inr None" by code_simp
  then have f': "?f = (Inr None, snd ?f)" by (simp add: prod_eq_iff)
  have e1: "fst ?e1 = Inr ''PVTI_i''" by code_simp
  have f1: "fst ?f1 = Inr (Some ''PVTI_i'')" by code_simp
  then have f1': "?f1 = (Inr (Some ''PVTI_i''), snd ?f1)" by (simp add: prod_eq_iff)
  have g1: "fst ?g1 = Inr ''PVTI_i''" by code_simp
  have none: "filter (holds ''I_7'') (items (board []) ''PVT_16'') = []"
    "mint (board []) (Suc (length (calls (board [])))) = ''PVTI_i''"
    "items (board []) ''PVT_16'' = []"
    by (simp_all add: board_def quiet_def)
  have a: "?e1 = add_issue_to_project (snd ?f) ''PVT_16'' ''I_7''"
    using f' ensure_membership_idempotent
      [where w = "board []" and p = "''PVT_16''" and i = "''I_7''" and v = "snd ?f"]
    by blast
  have b: "?e2 = (Inr ''PVTI_i'', snd ?f1)"
    using f1' ensure_membership_idempotent
      [where w = "snd ?e1" and p = "''PVT_16''" and i = "''I_7''" and x = "''PVTI_i''"
         and v = "snd ?f1"]
    by blast
  have c: "(\<exists>y. fst ?e1 = Inr y \<and> fst ?e2 = Inr y) \<and> items (snd ?e2) = items (snd ?e1) \<and>
      (items (snd ?e1) = items (board []) \<or>
       (filter (holds ''I_7'') (items (board []) ''PVT_16'') = [] \<and>
        items (snd ?e1) = (items (board []))(''PVT_16'' := items (board []) ''PVT_16'' @
           [\<lparr>item_id = mint (board []) (Suc (length (calls (board [])))),
               content = Some ''I_7''\<rparr>])))"
    using up(1) plain ensure_membership_idempotent
      [where w = "board []" and p = "''PVT_16''" and i = "''I_7''"
         and ?r1.0 = "fst ?e1" and ?w1.0 = "snd ?e1" and ?r2.0 = "fst ?e2" and ?w2.0 = "snd ?e2"]
    by simp
  have e1_items: "items (snd ?e1) ''PVT_16'' = [\<lparr>item_id = ''PVTI_i'', content = Some ''I_7''\<rparr>]"
    by code_simp
  have d: "(\<exists>y. fst ?g1 = Inr y \<and> fst ?g2 = Inr y) \<and> items (snd ?g2) = items (snd ?g1)"
    using up(2) plain ensure_membership_idempotent
      [where w = full_project and p = "''PVT_16''" and i = "''I_7''"
         and ?r1.0 = "fst ?g1" and ?w1.0 = "snd ?g1" and ?r2.0 = "fst ?g2" and ?w2.0 = "snd ?g2"]
    by simp
  from c e1 have e2: "fst ?e2 = Inr ''PVTI_i''"
    by auto
  from e1 have e1': "?e1 = (Inr ''PVTI_i'', snd ?e1)"
    by (simp add: prod_eq_iff)
  have m: "mutations (snd ?e2) = mutations (snd ?e1)"
    using up(1) plain e1' none(3) ensure_membership_idempotent
      [where w = "board []" and p = "''PVT_16''" and i = "''I_7''" and z = "''PVTI_i''"
         and ?w1.0 = "snd ?e1" and ?r2.0 = "fst ?e2" and ?w2.0 = "snd ?e2"]
    by simp
  from d g1 have g2: "fst ?g2 = Inr ''PVTI_i''"
    by auto
  from f a e1 f1 e2 c e1_items g1 g2 d m show ?thesis
    by simp
qed

lemma filter_take_single:
  assumes "filter P xs = [h]" and "filter P (take n xs) \<noteq> []"
  shows "filter P (take n xs) = [h]"
proof -
  have "filter P (take n xs) @ filter P (drop n xs) = [h]"
    using assms(1) by (metis append_take_drop_id filter_append)
  with assms(2) show ?thesis
    by (cases "filter P (take n xs)") auto
qed

text \<open>No mutation breaks the invariant that a project holds an issue at most once.\<close>

lemma served_single: "single w \<Longrightarrow> single (served c w)"
  by (cases c) (auto simp: single_def holds_def)

lemma add_then_find:
  assumes up: "\<forall>n c. outage w n c = None" and plain: "jq_plain i"
    and add: "add_issue_to_project w p i = (Inr x, w1)" and x: "x \<noteq> []"
    and once: "length (filter (holds i) (items w p)) \<le> 1"
    and near: "filter (holds i) (take 100 (items w1 p)) \<noteq> []"
  shows "is_issue_in_project w1 p i =
           (Inr (Some x), w1\<lparr>calls := calls w1 @ [(ListItems p i, True)]\<rparr>)"
proof -
  let ?wa = "served (AddItem p i) w"
  from add have 1: "x = holder ?wa p i"
    "w1 = ?wa\<lparr>calls := calls w @ [(AddItem p i, True)]\<rparr>"
    using add_issue_to_project_up [of w p i] up by (simp_all del: served.simps)
  have up1: "outage w1 (length (calls w1)) (ListItems p i) = None"
    using up 1 by (simp add: served_outage del: served.simps)
  have items1: "items w1 = items ?wa"
    using 1 by (simp del: served.simps)
  have "length (filter (holds i) (items ?wa p)) = 1"
  proof (cases "filter (holds i) (items w p) = []")
    case True
    then show ?thesis
      by (simp add: holds_def)
  next
    case False
    then have "length (filter (holds i) (items w p)) \<noteq> 0"
      by simp
    with once have "length (filter (holds i) (items w p)) = 1"
      by linarith
    with False show ?thesis
      by simp
  qed
  then obtain h where h: "filter (holds i) (items ?wa p) = [h]"
    by (auto simp: length_Suc_conv)
  with near items1 have "filter (holds i) (take 100 (items w1 p)) = [h]"
    by (simp add: filter_take_single del: served.simps)
  with h items1 1 have "scan w1 p i = x"
    by (simp add: scan_def holder_def del: served.simps)
  with x show ?thesis
    using is_issue_in_project_up [OF up1 plain] by simp
qed

text \<open>
  C9. Let every call go through, for an issue identifier without a double quote or
  backslash, in a project that holds the issue at most once. If \<open>add_issue_to_project\<close>
  returns an identifier and the item of the issue is among the first 100 items of the
  project, the ones that \<open>is_issue_in_project\<close> scans, then \<open>is_issue_in_project\<close>
  called next returns that identifier.
\<close>

theorem add_then_find_membership:
  assumes "\<forall>n c. outage w n c = None" and "jq_plain i"
    and "add_issue_to_project w p i = (Inr x, w1)" and "x \<noteq> []"
    and "length (filter (holds i) (items w p)) \<le> 1"
    and "filter (holds i) (take 100 (items w1 p)) \<noteq> []"
  shows "is_issue_in_project w1 p i =
           (Inr (Some x), w1\<lparr>calls := calls w1 @ [(ListItems p i, True)]\<rparr>)"
  using assms by (rule add_then_find)

theorem add_then_find_membership_witness:
  "fst (add_issue_to_project (board []) ''PVT_16'' ''I_7'') = Inr ''PVTI_'' \<and>
   items (snd (add_issue_to_project (board []) ''PVT_16'' ''I_7'')) ''PVT_16'' =
     [\<lparr>item_id = ''PVTI_'', content = Some ''I_7''\<rparr>] \<and>
   fst (is_issue_in_project (snd (add_issue_to_project (board []) ''PVT_16'' ''I_7''))
          ''PVT_16'' ''I_7'') = Inr (Some ''PVTI_'')"
proof -
  let ?a = "add_issue_to_project (board []) ''PVT_16'' ''I_7''"
  have up: "\<forall>n c. outage (board []) n c = None"
    by (simp add: board_def quiet_def)
  have plain: "jq_plain ''I_7''"
    by (simp add: jq_plain_def)
  have a: "fst ?a = Inr ''PVTI_''" by code_simp
  then have a': "?a = (Inr ''PVTI_'', snd ?a)" by (simp add: prod_eq_iff)
  have its: "items (snd ?a) ''PVT_16'' = [\<lparr>item_id = ''PVTI_'', content = Some ''I_7''\<rparr>]"
    by code_simp
  have once: "length (filter (holds ''I_7'') (items (board []) ''PVT_16'')) \<le> 1"
    by (simp add: board_def quiet_def)
  have near: "filter (holds ''I_7'') (take 100 (items (snd ?a) ''PVT_16'')) \<noteq> []"
    by (simp add: its holds_def)
  have "is_issue_in_project (snd ?a) ''PVT_16'' ''I_7'' =
          (Inr (Some ''PVTI_''),
           (snd ?a)\<lparr>calls := calls (snd ?a) @ [(ListItems ''PVT_16'' ''I_7'', True)]\<rparr>)"
    using add_then_find_membership [OF up plain a' _ once near] by simp
  with a its show ?thesis
    by simp
qed

text \<open>
  The scan's limit at work: in a project that already has a hundred items, the new item
  is the 101st, and \<open>is_issue_in_project\<close> called after \<open>add_issue_to_project\<close> finds
  nothing.
\<close>

lemma add_then_find_beyond_scan:
  "fst (add_issue_to_project full_project ''PVT_16'' ''I_7'') = Inr ''PVTI_'' \<and>
   fst (is_issue_in_project (snd (add_issue_to_project full_project ''PVT_16'' ''I_7''))
          ''PVT_16'' ''I_7'') = Inr None"
  by code_simp

end
